theory Spec2Isabelle
  imports Main "HOL-Library.Sublist"
begin

section \<open>Data model\<close>

text \<open>
  The node-agent reconciler of the logging operator
  (\<^verbatim>\<open>pkg/resources/nodeagent/nodeagent.go\<close>).  Go structs are records, a pointer is
  an \<open>option\<close> (\<open>None\<close> is \<^verbatim>\<open>nil\<close>), a slice is a list and a
  \<^verbatim>\<open>map[string]string\<close> is a partial function.  Nil and empty slices and maps are
  identified: the code only tests them for emptiness.  The struct declarations live in
  other packages; the records carry the fields that \<^verbatim>\<open>nodeagent.go\<close> reads or
  writes.  A field name that is used by two structs, or that clashes with a constant of
  HOL, carries a suffix.
\<close>

subsection \<open>Kubernetes pod template (\<^verbatim>\<open>v1\<close> and \<^verbatim>\<open>typeoverride\<close>)\<close>

record IntOrString =
  IntVal :: int

record HTTPGetAction =
  Path_http :: string
  Port :: IntOrString

record Handler =
  HTTPGet :: "HTTPGetAction option"

record Probe =
  Handler :: Handler
  InitialDelaySeconds :: int
  TimeoutSeconds :: int
  PeriodSeconds :: int
  SuccessThreshold :: int
  FailureThreshold :: int

text \<open>A \<^verbatim>\<open>v1.ResourceList\<close> maps a resource name to a quantity; a quantity is kept
  as the text it was parsed from.\<close>

type_synonym ResourceList = "string \<rightharpoonup> string"

record ResourceRequirements =
  Limits :: ResourceList
  Requests :: ResourceList

record Container =
  Name_c :: string
  Image_c :: string
  ImagePullPolicy :: string
  Resources :: ResourceRequirements
  LivenessProbe :: "Probe option"

record Toleration =
  Key :: string
  Operator :: string
  Value :: string
  Effect :: string

record PodSpec =
  Containers :: "Container list"
  NodeSelector :: "string \<rightharpoonup> string"
  Tolerations :: "Toleration list"

record PodTemplateSpec =
  Spec_pod :: PodSpec

record DaemonSetSpec =
  Template :: PodTemplateSpec

record DaemonSet =
  Spec_ds :: DaemonSetSpec

subsection \<open>The node-agent specification (\<^verbatim>\<open>v1beta1\<close>)\<close>

record InputTail =
  Path :: string
  RefreshInterval :: string
  SkipLongLines :: string
  DB :: "string option"
  MemBufLimit :: string
  Tag :: string

text \<open>\<^verbatim>\<open>v1.SecurityContext\<close> and \<^verbatim>\<open>v1.PodSecurityContext\<close> occur only as the
  empty literals \<^verbatim>\<open>&v1.SecurityContext{}\<close> and \<^verbatim>\<open>&v1.PodSecurityContext{}\<close>.\<close>

type_synonym SecurityContext = unit
type_synonym PodSecurityContext = unit

record Security =
  ServiceAccount :: string
  RoleBasedAccessControlCreate :: "bool option"
  SecurityContext :: "SecurityContext option"
  PodSecurityContext :: "PodSecurityContext option"

record BufferStorage =
  StoragePath :: string

record FilterAws =
  ImdsVersion :: string
  AZ :: "bool option"
  Ec2InstanceID :: "bool option"
  Ec2InstanceType :: "bool option"
  PrivateIP :: "bool option"
  AmiID :: "bool option"
  AccountID :: "bool option"
  Hostname :: "bool option"
  VpcID :: "bool option"
  Match :: string

record ForwardOptions =
  RetryLimit :: string

record NodeAgentFluentbit =
  DaemonSetOverrides :: "DaemonSet option"
  Flush :: int
  Grace :: int
  LogLevel :: string
  CoroStackSize :: int
  InputTail :: InputTail
  Security :: "Security option"
  MountPath :: string
  BufferStorage :: BufferStorage
  FilterAws :: "FilterAws option"
  ForwardOptions :: "ForwardOptions option"

record MetaBase =
  Labels :: "string \<rightharpoonup> string"

record NodeAgent =
  Name :: string
  Type :: string
  Metadata :: MetaBase
  FluentbitSpec :: "NodeAgentFluentbit option"

text \<open>The parent resource: \<open>Name_l\<close> is \<^verbatim>\<open>Logging.ObjectMeta.Name\<close> and
  \<open>NodeAgents\<close> is \<^verbatim>\<open>Logging.Spec.NodeAgents\<close>, a slice of pointers.\<close>

record Logging =
  Name_l :: string
  NodeAgents :: "NodeAgent option list"

text \<open>\<^verbatim>\<open>nodeAgentInstance\<close>.  Its \<^verbatim>\<open>reconciler\<close> field is the apply primitive,
  which the model passes separately; \<^verbatim>\<open>configs\<close> is never set in this file.\<close>

record nodeAgentInstance =
  nodeAgent :: NodeAgent
  logging :: Logging

subsection \<open>Zero values\<close>

definition zero_PodSpec :: PodSpec where
  "zero_PodSpec = \<lparr>Containers = [], NodeSelector = Map.empty, Tolerations = []\<rparr>"

definition zero_InputTail :: InputTail where
  "zero_InputTail = \<lparr>Path = [], RefreshInterval = [], SkipLongLines = [], DB = None,
     MemBufLimit = [], Tag = []\<rparr>"

definition zero_Security :: Security where
  "zero_Security = \<lparr>ServiceAccount = [], RoleBasedAccessControlCreate = None,
     SecurityContext = None, PodSecurityContext = None\<rparr>"

definition zero_FilterAws :: FilterAws where
  "zero_FilterAws = \<lparr>ImdsVersion = [], AZ = None, Ec2InstanceID = None,
     Ec2InstanceType = None, PrivateIP = None, AmiID = None, AccountID = None,
     Hostname = None, VpcID = None, Match = []\<rparr>"

definition zero_NodeAgentFluentbit :: NodeAgentFluentbit where
  "zero_NodeAgentFluentbit = \<lparr>DaemonSetOverrides = None, Flush = 0, Grace = 0,
     LogLevel = [], CoroStackSize = 0, InputTail = zero_InputTail, Security = None,
     MountPath = [], BufferStorage = \<lparr>StoragePath = []\<rparr>, FilterAws = None,
     ForwardOptions = None\<rparr>"

definition zero_NodeAgent :: NodeAgent where
  "zero_NodeAgent = \<lparr>Name = [], Type = [], Metadata = \<lparr>Labels = Map.empty\<rparr>,
     FluentbitSpec = None\<rparr>"

definition daemonSetOf :: "PodSpec \<Rightarrow> DaemonSet" where
  "daemonSetOf p = \<lparr>Spec_ds = \<lparr>Template = \<lparr>Spec_pod = p\<rparr>\<rparr>\<rparr>"

section \<open>The defaults profiles\<close>

definition containerName :: string where
  "containerName = ''fluent-bit''"

definition defaultServiceAccountName :: string where
  "defaultServiceAccountName = ''fluentbit''"

definition defaultContainer :: Container where
  "defaultContainer = \<lparr>
     Name_c = containerName,
     Image_c = ''fluent/fluent-bit:1.6.8'',
     ImagePullPolicy = ''IfNotPresent'',
     Resources = \<lparr>
       Limits = [''memory'' \<mapsto> ''100M'', ''cpu'' \<mapsto> ''200m''],
       Requests = [''memory'' \<mapsto> ''50M'', ''cpu'' \<mapsto> ''100m'']\<rparr>,
     LivenessProbe = Some \<lparr>
       Handler = \<lparr>HTTPGet = Some \<lparr>Path_http = ''/api/v1/metrics/prometheus'',
                                   Port = \<lparr>IntVal = 2020\<rparr>\<rparr>\<rparr>,
       InitialDelaySeconds = 10,
       TimeoutSeconds = 0,
       PeriodSeconds = 10,
       SuccessThreshold = 0,
       FailureThreshold = 3\<rparr>\<rparr>"

definition NodeAgentFluentbitDefaults :: NodeAgent where
  "NodeAgentFluentbitDefaults = zero_NodeAgent\<lparr>
     FluentbitSpec := Some \<lparr>
       DaemonSetOverrides = Some (daemonSetOf (zero_PodSpec\<lparr>Containers := [defaultContainer]\<rparr>)),
       Flush = 1,
       Grace = 5,
       LogLevel = ''info'',
       CoroStackSize = 24576,
       InputTail = \<lparr>
         Path = ''/var/log/containers/*.log'',
         RefreshInterval = ''5'',
         SkipLongLines = ''On'',
         DB = Some ''/tail-db/tail-containers-state.db'',
         MemBufLimit = ''5MB'',
         Tag = ''kubernetes.*''\<rparr>,
       Security = Some \<lparr>
         ServiceAccount = [],
         RoleBasedAccessControlCreate = Some True,
         SecurityContext = Some (),
         PodSecurityContext = Some ()\<rparr>,
       MountPath = ''/var/lib/docker/containers'',
       BufferStorage = \<lparr>StoragePath = ''/buffers''\<rparr>,
       FilterAws = Some \<lparr>
         ImdsVersion = ''v2'',
         AZ = Some True,
         Ec2InstanceID = Some True,
         Ec2InstanceType = Some False,
         PrivateIP = Some False,
         AmiID = Some False,
         AccountID = Some False,
         Hostname = Some False,
         VpcID = Some False,
         Match = ''*''\<rparr>,
       ForwardOptions = Some \<lparr>RetryLimit = ''False''\<rparr>\<rparr>\<rparr>"

definition windowsToleration :: Toleration where
  "windowsToleration =
     \<lparr>Key = ''os'', Operator = ''Equal'', Value = ''windows'', Effect = ''NoSchedule''\<rparr>"

text \<open>The Windows mount path is \<^verbatim>\<open>C:\ProgramData\docker\<close>; \<open>CHR 0x5C\<close> is the
  backslash.\<close>

definition NodeAgentFluentbitWindowsDefaults :: NodeAgent where
  "NodeAgentFluentbitWindowsDefaults = zero_NodeAgent\<lparr>
     FluentbitSpec := Some (zero_NodeAgentFluentbit\<lparr>
       MountPath := ''C:'' @ [CHR 0x5C] @ ''ProgramData'' @ [CHR 0x5C] @ ''docker'',
       DaemonSetOverrides := Some (daemonSetOf (zero_PodSpec\<lparr>
         NodeSelector := [''kubernetes.io/os'' \<mapsto> ''windows''],
         Tolerations := [windowsToleration]\<rparr>)),
       Flush := 2\<rparr>)\<rparr>"

definition NodeAgentFluentbitLinuxDefaults :: NodeAgent where
  "NodeAgentFluentbitLinuxDefaults = zero_NodeAgent\<lparr>
     FluentbitSpec := Some (zero_NodeAgentFluentbit\<lparr>Flush := 3\<rparr>)\<rparr>"

section \<open>Errors\<close>

text \<open>
  The ten resource factories of a node-agent instance, named after the methods
  \<^verbatim>\<open>n.serviceAccount\<close>, ..., \<^verbatim>\<open>n.monitorServiceMetrics\<close>.
\<close>

datatype resourceKind =
    serviceAccount
  | clusterRole
  | clusterRoleBinding
  | clusterPodSecurityPolicy
  | pspClusterRole
  | pspClusterRoleBinding
  | configSecret
  | daemonSet
  | serviceMetrics
  | monitorServiceMetrics

record GroupVersionKind =
  Group :: string
  Version :: string
  Kind :: string

datatype detail = DString string | DGroupVersionKind GroupVersionKind

text \<open>
  Go's \<^verbatim>\<open>error\<close> values.  \<open>Err m\<close> is an error with message \<open>m\<close> that comes from a
  factory, from the apply primitive or from the merge; \<open>NilObject f\<close> is the error built
  by \<^verbatim>\<open>errors.Errorf("Reconcile error! Resource %#v returns with nil object", factory)\<close>;
  \<open>WithMessage\<close> and \<open>WithDetails\<close> are the two wrappers of \<^verbatim>\<open>emperror.dev/errors\<close>
  (stack traces are not modelled).  A Go \<^verbatim>\<open>error\<close> that may be \<^verbatim>\<open>nil\<close> is an
  \<open>error option\<close>.
\<close>

datatype error =
    Err string
  | NilObject resourceKind
  | WithMessage error string
  | WithDetails error "(string \<times> detail) list"

definition WrapIf :: "error \<Rightarrow> string \<Rightarrow> error" where
  "WrapIf err message = WithMessage err message"

definition WrapWithDetails :: "error \<Rightarrow> string \<Rightarrow> (string \<times> detail) list \<Rightarrow> error" where
  "WrapWithDetails err message details = WithDetails (WithMessage err message) details"

text \<open>\<^verbatim>\<open>errors.GetDetails\<close>: the key/value pairs attached anywhere in the chain.\<close>

fun GetDetails :: "error \<Rightarrow> (string \<times> detail) list" where
  "GetDetails (Err m) = []"
| "GetDetails (NilObject f) = []"
| "GetDetails (WithMessage e m) = GetDetails e"
| "GetDetails (WithDetails e ds) = GetDetails e @ ds"

section \<open>The merge of defaults (\<^verbatim>\<open>mergo.Merge\<close>)\<close>

text \<open>
  \<^verbatim>\<open>mergo.Merge(dst, src)\<close> of \<^verbatim>\<open>github.com/imdario/mergo\<close>, called without options
  (no overwrite, no slice appending), at the types of a node agent.  The library walks
  both values by reflection, one case per kind:
  \<^item> a string, number or boolean of \<open>dst\<close> is set from \<open>src\<close> when it is the zero value
    and \<open>src\<close>'s is not;
  \<^item> a struct is merged field by field;
  \<^item> a pointer: nothing happens when \<open>src\<close>'s is nil; a nil pointer of \<open>dst\<close> is set to
    \<open>src\<close>'s; two non-nil pointers are merged at what they point to;
  \<^item> a map: every key of \<open>src\<close> that \<open>dst\<close> lacks, or holds with an empty value, is set
    from \<open>src\<close>; the other entries of \<open>dst\<close> stay;
  \<^item> a slice of \<open>dst\<close> is set to \<open>src\<close>'s when it is empty and \<open>src\<close>'s is not.
  The model returns the merged value; the code mutates \<open>dst\<close> in place, so the caller
  stores the result back.  Sharing between \<open>dst\<close> and \<open>src\<close> after the merge is not
  modelled: values here are immutable.
\<close>

definition deepMerge_string :: "string \<Rightarrow> string \<Rightarrow> string" where
  "deepMerge_string dst src = (if dst = [] \<and> src \<noteq> [] then src else dst)"

definition deepMerge_int :: "int \<Rightarrow> int \<Rightarrow> int" where
  "deepMerge_int dst src = (if dst = 0 \<and> src \<noteq> 0 then src else dst)"

definition deepMerge_bool :: "bool \<Rightarrow> bool \<Rightarrow> bool" where
  "deepMerge_bool dst src = (if \<not> dst \<and> src then src else dst)"

definition deepMerge_slice :: "'a list \<Rightarrow> 'a list \<Rightarrow> 'a list" where
  "deepMerge_slice dst src = (if dst = [] \<and> src \<noteq> [] then src else dst)"

definition deepMerge_map :: "(string \<rightharpoonup> string) \<Rightarrow> (string \<rightharpoonup> string) \<Rightarrow> (string \<rightharpoonup> string)" where
  "deepMerge_map dst src = (\<lambda>key.
     case src key of
       None \<Rightarrow> dst key
     | Some srcElement \<Rightarrow>
         (case dst key of
            None \<Rightarrow> Some srcElement
          | Some dstElement \<Rightarrow> if dstElement = [] then Some srcElement else Some dstElement))"

definition deepMerge_ptr :: "('a \<Rightarrow> 'a \<Rightarrow> 'a) \<Rightarrow> 'a option \<Rightarrow> 'a option \<Rightarrow> 'a option" where
  "deepMerge_ptr elem dst src =
     (case src of
        None \<Rightarrow> dst
      | Some s \<Rightarrow> (case dst of None \<Rightarrow> Some s | Some d \<Rightarrow> Some (elem d s)))"

definition deepMerge_PodSpec :: "PodSpec \<Rightarrow> PodSpec \<Rightarrow> PodSpec" where
  "deepMerge_PodSpec dst src = \<lparr>
     Containers = deepMerge_slice (Containers dst) (Containers src),
     NodeSelector = deepMerge_map (NodeSelector dst) (NodeSelector src),
     Tolerations = deepMerge_slice (Tolerations dst) (Tolerations src)\<rparr>"

definition deepMerge_DaemonSet :: "DaemonSet \<Rightarrow> DaemonSet \<Rightarrow> DaemonSet" where
  "deepMerge_DaemonSet dst src = \<lparr>Spec_ds = \<lparr>Template = \<lparr>Spec_pod =
     deepMerge_PodSpec (Spec_pod (Template (Spec_ds dst))) (Spec_pod (Template (Spec_ds src)))\<rparr>\<rparr>\<rparr>"

definition deepMerge_InputTail :: "InputTail \<Rightarrow> InputTail \<Rightarrow> InputTail" where
  "deepMerge_InputTail dst src = \<lparr>
     Path = deepMerge_string (Path dst) (Path src),
     RefreshInterval = deepMerge_string (RefreshInterval dst) (RefreshInterval src),
     SkipLongLines = deepMerge_string (SkipLongLines dst) (SkipLongLines src),
     DB = deepMerge_ptr deepMerge_string (DB dst) (DB src),
     MemBufLimit = deepMerge_string (MemBufLimit dst) (MemBufLimit src),
     Tag = deepMerge_string (Tag dst) (Tag src)\<rparr>"

definition deepMerge_Security :: "Security \<Rightarrow> Security \<Rightarrow> Security" where
  "deepMerge_Security dst src = \<lparr>
     ServiceAccount = deepMerge_string (ServiceAccount dst) (ServiceAccount src),
     RoleBasedAccessControlCreate =
       deepMerge_ptr deepMerge_bool (RoleBasedAccessControlCreate dst) (RoleBasedAccessControlCreate src),
     SecurityContext = deepMerge_ptr (\<lambda>d s. d) (SecurityContext dst) (SecurityContext src),
     PodSecurityContext = deepMerge_ptr (\<lambda>d s. d) (PodSecurityContext dst) (PodSecurityContext src)\<rparr>"

definition deepMerge_BufferStorage :: "BufferStorage \<Rightarrow> BufferStorage \<Rightarrow> BufferStorage" where
  "deepMerge_BufferStorage dst src =
     \<lparr>StoragePath = deepMerge_string (StoragePath dst) (StoragePath src)\<rparr>"

definition deepMerge_FilterAws :: "FilterAws \<Rightarrow> FilterAws \<Rightarrow> FilterAws" where
  "deepMerge_FilterAws dst src = \<lparr>
     ImdsVersion = deepMerge_string (ImdsVersion dst) (ImdsVersion src),
     AZ = deepMerge_ptr deepMerge_bool (AZ dst) (AZ src),
     Ec2InstanceID = deepMerge_ptr deepMerge_bool (Ec2InstanceID dst) (Ec2InstanceID src),
     Ec2InstanceType = deepMerge_ptr deepMerge_bool (Ec2InstanceType dst) (Ec2InstanceType src),
     PrivateIP = deepMerge_ptr deepMerge_bool (PrivateIP dst) (PrivateIP src),
     AmiID = deepMerge_ptr deepMerge_bool (AmiID dst) (AmiID src),
     AccountID = deepMerge_ptr deepMerge_bool (AccountID dst) (AccountID src),
     Hostname = deepMerge_ptr deepMerge_bool (Hostname dst) (Hostname src),
     VpcID = deepMerge_ptr deepMerge_bool (VpcID dst) (VpcID src),
     Match = deepMerge_string (Match dst) (Match src)\<rparr>"

definition deepMerge_ForwardOptions :: "ForwardOptions \<Rightarrow> ForwardOptions \<Rightarrow> ForwardOptions" where
  "deepMerge_ForwardOptions dst src =
     \<lparr>RetryLimit = deepMerge_string (RetryLimit dst) (RetryLimit src)\<rparr>"

definition deepMerge_NodeAgentFluentbit ::
  "NodeAgentFluentbit \<Rightarrow> NodeAgentFluentbit \<Rightarrow> NodeAgentFluentbit" where
  "deepMerge_NodeAgentFluentbit dst src = \<lparr>
     DaemonSetOverrides =
       deepMerge_ptr deepMerge_DaemonSet (DaemonSetOverrides dst) (DaemonSetOverrides src),
     Flush = deepMerge_int (Flush dst) (Flush src),
     Grace = deepMerge_int (Grace dst) (Grace src),
     LogLevel = deepMerge_string (LogLevel dst) (LogLevel src),
     CoroStackSize = deepMerge_int (CoroStackSize dst) (CoroStackSize src),
     InputTail = deepMerge_InputTail (InputTail dst) (InputTail src),
     Security = deepMerge_ptr deepMerge_Security (Security dst) (Security src),
     MountPath = deepMerge_string (MountPath dst) (MountPath src),
     BufferStorage = deepMerge_BufferStorage (BufferStorage dst) (BufferStorage src),
     FilterAws = deepMerge_ptr deepMerge_FilterAws (FilterAws dst) (FilterAws src),
     ForwardOptions =
       deepMerge_ptr deepMerge_ForwardOptions (ForwardOptions dst) (ForwardOptions src)\<rparr>"

definition deepMerge_NodeAgent :: "NodeAgent \<Rightarrow> NodeAgent \<Rightarrow> NodeAgent" where
  "deepMerge_NodeAgent dst src = \<lparr>
     Name = deepMerge_string (Name dst) (Name src),
     Type = deepMerge_string (Type dst) (Type src),
     Metadata = \<lparr>Labels = deepMerge_map (Labels (Metadata dst)) (Labels (Metadata src))\<rparr>,
     FluentbitSpec =
       deepMerge_ptr deepMerge_NodeAgentFluentbit (FluentbitSpec dst) (FluentbitSpec src)\<rparr>"

text \<open>\<^verbatim>\<open>mergo.ErrNotSupported\<close>: what \<^verbatim>\<open>Merge\<close> returns when \<open>dst\<close> does not point
  to a struct or a map, as a nil \<^verbatim>\<open>*NodeAgent\<close> does.\<close>

definition ErrNotSupported :: error where
  "ErrNotSupported = Err ''only structs and maps are supported''"

definition Merge :: "NodeAgent option \<Rightarrow> NodeAgent \<Rightarrow> error + NodeAgent" where
  "Merge dst src =
     (case dst of
        None \<Rightarrow> Inl ErrNotSupported
      | Some d \<Rightarrow> Inr (deepMerge_NodeAgent d src))"

section \<open>Naming helpers\<close>

text \<open>\<^verbatim>\<open>fmt.Sprintf("%s-%s-%s", n.logging.Name, n.nodeAgent.Name, name)\<close>.\<close>

definition QualifiedName :: "nodeAgentInstance \<Rightarrow> string \<Rightarrow> string" where
  "QualifiedName n name = Name_l (logging n) @ ''-'' @ Name (nodeAgent n) @ ''-'' @ name"

text \<open>\<open>None\<close> is the panic of dereferencing a nil \<^verbatim>\<open>FluentbitSpec\<close> or
  \<^verbatim>\<open>Security\<close>.\<close>

definition getServiceAccount :: "nodeAgentInstance \<Rightarrow> string option" where
  "getServiceAccount n =
     (case FluentbitSpec (nodeAgent n) of
        None \<Rightarrow> None
      | Some spec \<Rightarrow>
          (case Security spec of
             None \<Rightarrow> None
           | Some sec \<Rightarrow>
               if ServiceAccount sec \<noteq> [] then Some (ServiceAccount sec)
               else Some (QualifiedName n defaultServiceAccountName)))"

section \<open>The reconciliation pipeline\<close>

record Result =
  Requeue :: bool
  RequeueAfter :: int

text \<open>
  The collaborators that \<^verbatim>\<open>nodeagent.go\<close> calls and does not define: the factories
  (methods of \<^verbatim>\<open>nodeAgentInstance\<close> in other files, each returning an object, a desired
  state and an error), the apply primitive \<^verbatim>\<open>ReconcileResource\<close> of the generic
  reconciler, which acts on the cluster \<open>'w\<close>, and \<^verbatim>\<open>o.GetObjectKind().GroupVersionKind()\<close>.
\<close>

record ('o, 's, 'w) env =
  factory :: "resourceKind \<Rightarrow> nodeAgentInstance \<Rightarrow> 'o option \<times> 's \<times> error option"
  ReconcileResource :: "'o \<Rightarrow> 's \<Rightarrow> 'w \<Rightarrow> (Result option \<times> error option) \<times> 'w"
  ObjectKind :: "'o \<Rightarrow> GroupVersionKind"

text \<open>A pass threads the cluster and a log of the calls made to the collaborators.\<close>

datatype ('o, 's) event = FactoryCall resourceKind | ApplyCall 'o 's

record ('o, 's, 'w) pass_state =
  world :: 'w
  trace :: "('o, 's) event list"

type_synonym outcome = "Result option \<times> error option"

definition factories :: "resourceKind list" where
  "factories = [serviceAccount, clusterRole, clusterRoleBinding, clusterPodSecurityPolicy,
     pspClusterRole, pspClusterRoleBinding, configSecret, daemonSet, serviceMetrics,
     monitorServiceMetrics]"

text \<open>The loop of \<^verbatim>\<open>(n *nodeAgentInstance) Reconcile\<close> over a list of factories.\<close>

fun reconcileFactories ::
  "('o, 's, 'w) env \<Rightarrow> nodeAgentInstance \<Rightarrow> resourceKind list \<Rightarrow> ('o, 's, 'w) pass_state
     \<Rightarrow> outcome \<times> ('o, 's, 'w) pass_state" where
  "reconcileFactories env n [] st = ((None, None), st)"
| "reconcileFactories env n (f # fs) st =
     (let st1 = st\<lparr>trace := trace st @ [FactoryCall f]\<rparr> in
      case factory env f n of (obj, state, err) \<Rightarrow>
        (case err of
           Some e \<Rightarrow> ((None, Some (WrapIf e ''failed to create desired object'')), st1)
         | None \<Rightarrow>
             (case obj of
                None \<Rightarrow> ((None, Some (NilObject f)), st1)
              | Some ob \<Rightarrow>
                  (case ReconcileResource env ob state (world st1) of ((result, err2), w) \<Rightarrow>
                     let st2 = \<lparr>world = w, trace = trace st1 @ [ApplyCall ob state]\<rparr> in
                     (case err2 of
                        Some e \<Rightarrow>
                          ((None, Some (WrapWithDetails e ''failed to reconcile resource''
                              [(''resource'', DGroupVersionKind (ObjectKind env ob))])), st2)
                      | None \<Rightarrow>
                          (case result of
                             Some res \<Rightarrow> ((Some res, None), st2)
                           | None \<Rightarrow> reconcileFactories env n fs st2))))))"

definition Reconcile_instance ::
  "('o, 's, 'w) env \<Rightarrow> nodeAgentInstance \<Rightarrow> ('o, 's, 'w) pass_state
     \<Rightarrow> outcome \<times> ('o, 's, 'w) pass_state" where
  "Reconcile_instance env n st = reconcileFactories env n factories st"

text \<open>
  The loop of \<^verbatim>\<open>(r *Reconciler) Reconcile\<close>.  \<open>done\<close> holds the entries already
  visited (merged in place), \<open>a # rest\<close> the ones still to visit; the parent resource as
  the instance sees it holds \<open>done\<close>, the merged \<open>a\<close> and \<open>rest\<close>.
\<close>

fun ReconcileNodeAgents ::
  "('o, 's, 'w) env \<Rightarrow> Logging \<Rightarrow> NodeAgent option list \<Rightarrow> NodeAgent option list
     \<Rightarrow> ('o, 's, 'w) pass_state \<Rightarrow> outcome \<times> Logging \<times> ('o, 's, 'w) pass_state" where
  "ReconcileNodeAgents env r done [] st = ((None, None), r\<lparr>NodeAgents := done\<rparr>, st)"
| "ReconcileNodeAgents env r done (a # rest) st =
     (case Merge a NodeAgentFluentbitDefaults of
        Inl err \<Rightarrow> ((None, Some err), r\<lparr>NodeAgents := done @ a # rest\<rparr>, st)
      | Inr a1 \<Rightarrow>
          (case (if Type a1 = ''windows''
                 then Merge (Some a1) NodeAgentFluentbitWindowsDefaults
                 else Merge (Some a1) NodeAgentFluentbitLinuxDefaults) of
             Inl err \<Rightarrow> ((None, Some err), r\<lparr>NodeAgents := done @ Some a1 # rest\<rparr>, st)
           | Inr a2 \<Rightarrow>
               (let r2 = r\<lparr>NodeAgents := done @ Some a2 # rest\<rparr>;
                    inst = \<lparr>nodeAgent = a2, logging = r2\<rparr> in
                case Reconcile_instance env inst st of ((result, err), st') \<Rightarrow>
                  (case err of
                     Some e \<Rightarrow>
                       ((None, Some (WrapWithDetails e ''failed to reconcile instances''
                           [(''NodeName'', DString (Name a2))])), r2, st')
                   | None \<Rightarrow>
                       (case result of
                          Some res \<Rightarrow> ((Some res, None), r2, st')
                        | None \<Rightarrow> ReconcileNodeAgents env r (done @ [Some a2]) rest st')))))"

definition Reconcile ::
  "('o, 's, 'w) env \<Rightarrow> Logging \<Rightarrow> ('o, 's, 'w) pass_state
     \<Rightarrow> outcome \<times> Logging \<times> ('o, 's, 'w) pass_state" where
  "Reconcile env r st = ReconcileNodeAgents env r [] (NodeAgents r) st"

section \<open>Observations\<close>

text \<open>What the statements below read off a pass: the factories called between two
  states of a pass, in call order.\<close>

fun factoryCalls :: "('o, 's) event list \<Rightarrow> resourceKind list" where
  "factoryCalls [] = []"
| "factoryCalls (FactoryCall f # evs) = f # factoryCalls evs"
| "factoryCalls (ApplyCall ob s # evs) = factoryCalls evs"

definition newEvents :: "('o, 's, 'w) pass_state \<Rightarrow> ('o, 's, 'w) pass_state \<Rightarrow> ('o, 's) event list" where
  "newEvents st st' = drop (length (trace st)) (trace st')"

text \<open>
  The fields of a node-agent specification, one name per field that the profiles or the
  code mention, and the value of each.  A field below a nil pointer reads as its zero
  value: it is unset.  \<open>VPtr\<close> tells whether a pointer to a struct is non-nil.
\<close>

datatype field =
    F_Name | F_Type | F_Labels | F_FluentbitSpec
  | F_DaemonSetOverrides | F_Containers | F_NodeSelector | F_Tolerations
  | F_Flush | F_Grace | F_LogLevel | F_CoroStackSize
  | F_Path | F_RefreshInterval | F_SkipLongLines | F_DB | F_MemBufLimit | F_Tag
  | F_Security | F_ServiceAccount | F_RoleBasedAccessControlCreate
  | F_SecurityContext | F_PodSecurityContext
  | F_MountPath | F_StoragePath
  | F_FilterAws | F_ImdsVersion | F_AZ | F_Ec2InstanceID | F_Ec2InstanceType
  | F_PrivateIP | F_AmiID | F_AccountID | F_Hostname | F_VpcID | F_Match
  | F_ForwardOptions | F_RetryLimit

datatype fieldValue =
    VString string
  | VInt int
  | VBoolPtr "bool option"
  | VStringPtr "string option"
  | VPtr bool
  | VContainers "Container list"
  | VTolerations "Toleration list"
  | VMap "string \<rightharpoonup> string"

definition specOf :: "NodeAgent \<Rightarrow> NodeAgentFluentbit" where
  "specOf a = (case FluentbitSpec a of None \<Rightarrow> zero_NodeAgentFluentbit | Some spec \<Rightarrow> spec)"

definition podSpecOf :: "NodeAgent \<Rightarrow> PodSpec" where
  "podSpecOf a = (case DaemonSetOverrides (specOf a) of
      None \<Rightarrow> zero_PodSpec | Some d \<Rightarrow> Spec_pod (Template (Spec_ds d)))"

definition securityOf :: "NodeAgent \<Rightarrow> Security" where
  "securityOf a = (case Security (specOf a) of None \<Rightarrow> zero_Security | Some sec \<Rightarrow> sec)"

definition filterAwsOf :: "NodeAgent \<Rightarrow> FilterAws" where
  "filterAwsOf a = (case FilterAws (specOf a) of None \<Rightarrow> zero_FilterAws | Some fa \<Rightarrow> fa)"

definition forwardOptionsOf :: "NodeAgent \<Rightarrow> ForwardOptions" where
  "forwardOptionsOf a =
     (case ForwardOptions (specOf a) of None \<Rightarrow> \<lparr>RetryLimit = []\<rparr> | Some fo \<Rightarrow> fo)"

fun get :: "field \<Rightarrow> NodeAgent \<Rightarrow> fieldValue" where
  "get F_Name a = VString (Name a)"
| "get F_Type a = VString (Type a)"
| "get F_Labels a = VMap (Labels (Metadata a))"
| "get F_FluentbitSpec a = VPtr (FluentbitSpec a \<noteq> None)"
| "get F_DaemonSetOverrides a = VPtr (DaemonSetOverrides (specOf a) \<noteq> None)"
| "get F_Containers a = VContainers (Containers (podSpecOf a))"
| "get F_NodeSelector a = VMap (NodeSelector (podSpecOf a))"
| "get F_Tolerations a = VTolerations (Tolerations (podSpecOf a))"
| "get F_Flush a = VInt (Flush (specOf a))"
| "get F_Grace a = VInt (Grace (specOf a))"
| "get F_LogLevel a = VString (LogLevel (specOf a))"
| "get F_CoroStackSize a = VInt (CoroStackSize (specOf a))"
| "get F_Path a = VString (Path (InputTail (specOf a)))"
| "get F_RefreshInterval a = VString (RefreshInterval (InputTail (specOf a)))"
| "get F_SkipLongLines a = VString (SkipLongLines (InputTail (specOf a)))"
| "get F_DB a = VStringPtr (DB (InputTail (specOf a)))"
| "get F_MemBufLimit a = VString (MemBufLimit (InputTail (specOf a)))"
| "get F_Tag a = VString (Tag (InputTail (specOf a)))"
| "get F_Security a = VPtr (Security (specOf a) \<noteq> None)"
| "get F_ServiceAccount a = VString (ServiceAccount (securityOf a))"
| "get F_RoleBasedAccessControlCreate a = VBoolPtr (RoleBasedAccessControlCreate (securityOf a))"
| "get F_SecurityContext a = VPtr (SecurityContext (securityOf a) \<noteq> None)"
| "get F_PodSecurityContext a = VPtr (PodSecurityContext (securityOf a) \<noteq> None)"
| "get F_MountPath a = VString (MountPath (specOf a))"
| "get F_StoragePath a = VString (StoragePath (BufferStorage (specOf a)))"
| "get F_FilterAws a = VPtr (FilterAws (specOf a) \<noteq> None)"
| "get F_ImdsVersion a = VString (ImdsVersion (filterAwsOf a))"
| "get F_AZ a = VBoolPtr (AZ (filterAwsOf a))"
| "get F_Ec2InstanceID a = VBoolPtr (Ec2InstanceID (filterAwsOf a))"
| "get F_Ec2InstanceType a = VBoolPtr (Ec2InstanceType (filterAwsOf a))"
| "get F_PrivateIP a = VBoolPtr (PrivateIP (filterAwsOf a))"
| "get F_AmiID a = VBoolPtr (AmiID (filterAwsOf a))"
| "get F_AccountID a = VBoolPtr (AccountID (filterAwsOf a))"
| "get F_Hostname a = VBoolPtr (Hostname (filterAwsOf a))"
| "get F_VpcID a = VBoolPtr (VpcID (filterAwsOf a))"
| "get F_Match a = VString (Match (filterAwsOf a))"
| "get F_ForwardOptions a = VPtr (ForwardOptions (specOf a) \<noteq> None)"
| "get F_RetryLimit a = VString (RetryLimit (forwardOptionsOf a))"

text \<open>A field is set when it is not the zero value of its type: a non-empty string,
  list or map, a non-zero number, a non-nil pointer.\<close>

fun isSet :: "fieldValue \<Rightarrow> bool" where
  "isSet (VString s) = (s \<noteq> [])"
| "isSet (VInt i) = (i \<noteq> 0)"
| "isSet (VBoolPtr b) = (b \<noteq> None)"
| "isSet (VStringPtr s) = (s \<noteq> None)"
| "isSet (VPtr p) = p"
| "isSet (VContainers cs) = (cs \<noteq> [])"
| "isSet (VTolerations ts) = (ts \<noteq> [])"
| "isSet (VMap m) = (m \<noteq> Map.empty)"

text \<open>\<^verbatim>\<open>mergo\<close>'s own test \<^verbatim>\<open>isEmptyValue\<close>, which also takes a pointer to a zero
  value for empty.\<close>

fun isEmptyValue :: "fieldValue \<Rightarrow> bool" where
  "isEmptyValue (VString s) = (s = [])"
| "isEmptyValue (VInt i) = (i = 0)"
| "isEmptyValue (VBoolPtr b) = (b = None \<or> b = Some False)"
| "isEmptyValue (VStringPtr s) = (s = None \<or> s = Some [])"
| "isEmptyValue (VPtr p) = (\<not> p)"
| "isEmptyValue (VContainers cs) = (cs = [])"
| "isEmptyValue (VTolerations ts) = (ts = [])"
| "isEmptyValue (VMap m) = (m = Map.empty)"

text \<open>The entry as \<^verbatim>\<open>Reconcile\<close> leaves it after its two merges (lines 207 to 234):
  the base profile first, then the profile of the entry's platform.\<close>

definition platformDefaults :: "NodeAgent \<Rightarrow> NodeAgent" where
  "platformDefaults a = (if Type a = ''windows'' then NodeAgentFluentbitWindowsDefaults
     else NodeAgentFluentbitLinuxDefaults)"

definition withDefaults :: "NodeAgent \<Rightarrow> NodeAgent" where
  "withDefaults a = deepMerge_NodeAgent (deepMerge_NodeAgent a NodeAgentFluentbitDefaults)
     (platformDefaults a)"

section \<open>Example collaborators\<close>

text \<open>
  A family of environments for concrete runs: the object of a factory is the pair of the
  node agent's name and the factory, the cluster counts the calls of the apply
  primitive, and a script says how each factory of each node agent behaves.
\<close>

datatype script = Continues | Requeues | FactoryFails | NilObjects | ApplyFails

definition scriptedEnv ::
  "(string \<Rightarrow> resourceKind \<Rightarrow> script) \<Rightarrow> (string \<times> resourceKind, unit, nat) env" where
  "scriptedEnv sc = \<lparr>
     factory = (\<lambda>f n.
       case sc (Name (nodeAgent n)) f of
         FactoryFails \<Rightarrow> (None, (), Some (Err ''boom''))
       | NilObjects \<Rightarrow> (None, (), None)
       | _ \<Rightarrow> (Some (Name (nodeAgent n), f), (), None)),
     ReconcileResource = (\<lambda>ob s w.
       ((case sc (fst ob) (snd ob) of
           Requeues \<Rightarrow> (Some \<lparr>Requeue = True, RequeueAfter = 0\<rparr>, None)
         | ApplyFails \<Rightarrow> (None, Some (Err ''conflict''))
         | _ \<Rightarrow> (None, None)), Suc w)),
     ObjectKind = (\<lambda>ob. \<lparr>Group = [], Version = ''v1'', Kind = ''Object''\<rparr>)\<rparr>"

definition allContinue :: "string \<Rightarrow> resourceKind \<Rightarrow> script" where
  "allContinue name f = Continues"

definition requeueAtClusterRoleBinding :: "string \<Rightarrow> resourceKind \<Rightarrow> script" where
  "requeueAtClusterRoleBinding name f = (if f = clusterRoleBinding then Requeues else Continues)"

definition nilAtConfigSecret :: "string \<Rightarrow> resourceKind \<Rightarrow> script" where
  "nilAtConfigSecret name f = (if f = configSecret then NilObjects else Continues)"

definition firstFactoryFailsForOne :: "string \<Rightarrow> resourceKind \<Rightarrow> script" where
  "firstFactoryFailsForOne name f =
     (if name = ''one'' \<and> f = serviceAccount then FactoryFails else Continues)"

definition applyFailsForTwo :: "string \<Rightarrow> resourceKind \<Rightarrow> script" where
  "applyFailsForTwo name f =
     (if name = ''two'' \<and> f = clusterRole then ApplyFails else Continues)"

definition emptyPass :: "(string \<times> resourceKind, unit, nat) pass_state" where
  "emptyPass = \<lparr>world = 0, trace = []\<rparr>"

definition namedAgent :: "string \<Rightarrow> string \<Rightarrow> NodeAgent" where
  "namedAgent name type = zero_NodeAgent\<lparr>Name := name, Type := type\<rparr>"

definition exampleInstance :: nodeAgentInstance where
  "exampleInstance = \<lparr>nodeAgent = namedAgent ''one'' [],
     logging = \<lparr>Name_l = ''logging'', NodeAgents = [Some (namedAgent ''one'' [])]\<rparr>\<rparr>"

section \<open>The loop of an instance\<close>

lemma factoryCalls_append: "factoryCalls (xs @ ys) = factoryCalls xs @ factoryCalls ys"
  by (induction xs rule: factoryCalls.induct) auto

lemma rf_factory_error:
  "factory env f n = (obj, s, Some e) \<Longrightarrow>
   reconcileFactories env n (f # fs) st =
     ((None, Some (WrapIf e ''failed to create desired object'')),
      st\<lparr>trace := trace st @ [FactoryCall f]\<rparr>)"
  by simp

lemma rf_nil_object:
  "factory env f n = (None, s, None) \<Longrightarrow>
   reconcileFactories env n (f # fs) st =
     ((None, Some (NilObject f)), st\<lparr>trace := trace st @ [FactoryCall f]\<rparr>)"
  by simp

lemma rf_apply_error:
  "factory env f n = (Some ob, s, None) \<Longrightarrow>
   ReconcileResource env ob s (world st) = ((res, Some e), w) \<Longrightarrow>
   reconcileFactories env n (f # fs) st =
     ((None, Some (WrapWithDetails e ''failed to reconcile resource''
         [(''resource'', DGroupVersionKind (ObjectKind env ob))])),
      \<lparr>world = w, trace = trace st @ [FactoryCall f, ApplyCall ob s]\<rparr>)"
  by simp

lemma rf_requeue:
  "factory env f n = (Some ob, s, None) \<Longrightarrow>
   ReconcileResource env ob s (world st) = ((Some res, None), w) \<Longrightarrow>
   reconcileFactories env n (f # fs) st =
     ((Some res, None), \<lparr>world = w, trace = trace st @ [FactoryCall f, ApplyCall ob s]\<rparr>)"
  by simp

lemma rf_continue:
  "factory env f n = (Some ob, s, None) \<Longrightarrow>
   ReconcileResource env ob s (world st) = ((None, None), w) \<Longrightarrow>
   reconcileFactories env n (f # fs) st =
     reconcileFactories env n fs \<lparr>world = w, trace = trace st @ [FactoryCall f, ApplyCall ob s]\<rparr>"
  by simp

lemma rf_cases:
  obtains (factory_error) obj s e where "factory env f n = (obj, s, Some e)"
  | (nil_object) s where "factory env f n = (None, s, None)"
  | (apply_error) ob s res e w where "factory env f n = (Some ob, s, None)"
      "ReconcileResource env ob s (world st) = ((res, Some e), w)"
  | (requeue) ob s res w where "factory env f n = (Some ob, s, None)"
      "ReconcileResource env ob s (world st) = ((Some res, None), w)"
  | (continue) ob s w where "factory env f n = (Some ob, s, None)"
      "ReconcileResource env ob s (world st) = ((None, None), w)"
proof -
  obtain obj s err where F: "factory env f n = (obj, s, err)"
    by (cases "factory env f n") auto
  show thesis
  proof (cases err)
    case (Some e) with F factory_error show ?thesis by blast
  next
    case None
    show ?thesis
    proof (cases obj)
      case None with F \<open>err = None\<close> nil_object show ?thesis by blast
    next
      case (Some ob)
      obtain res err2 w where A: "ReconcileResource env ob s (world st) = ((res, err2), w)"
        by (cases "ReconcileResource env ob s (world st)") auto
      show ?thesis
      proof (cases err2)
        case (Some e) with F A \<open>err = None\<close> \<open>obj = Some ob\<close> apply_error show ?thesis by blast
      next
        case None
        then show ?thesis using F A \<open>err = None\<close> \<open>obj = Some ob\<close> requeue continue
          by (cases res) blast+
      qed
    qed
  qed
qed

lemma rf_append:
  "reconcileFactories env n pre st = ((None, None), st') \<Longrightarrow>
   reconcileFactories env n (pre @ post) st = reconcileFactories env n post st'"
proof (induction pre arbitrary: st)
  case Nil
  then show ?case by simp
next
  case (Cons f fs)
  show ?case
  proof (cases rule: rf_cases [where env=env and f=f and n=n and st=st])
    case (continue ob s w)
    then show ?thesis using Cons by (simp del: reconcileFactories.simps add: rf_continue)
  qed (use Cons.prems in \<open>simp_all add: WrapIf_def WrapWithDetails_def\<close>)
qed

lemma rf_trace:
  "reconcileFactories env n fs st = (out, st') \<Longrightarrow>
   \<exists>evs. trace st' = trace st @ evs \<and> prefix (factoryCalls evs) fs
     \<and> (out = (None, None) \<longrightarrow> factoryCalls evs = fs)"
proof (induction fs arbitrary: st)
  case Nil
  then show ?case by auto
next
  case (Cons f fs)
  show ?case
  proof (cases rule: rf_cases [where env=env and f=f and n=n and st=st])
    case (continue ob s w)
    let ?st2 = "\<lparr>world = w, trace = trace st @ [FactoryCall f, ApplyCall ob s]\<rparr>"
    from continue Cons.prems have "reconcileFactories env n fs ?st2 = (out, st')"
      by (simp del: reconcileFactories.simps add: rf_continue)
    from Cons.IH [OF this] obtain evs where
      "trace st' = trace ?st2 @ evs" "prefix (factoryCalls evs) fs"
      "out = (None, None) \<longrightarrow> factoryCalls evs = fs" by blast
    then show ?thesis
      by (intro exI [of _ "[FactoryCall f, ApplyCall ob s] @ evs"]) (simp)
  next
    case (factory_error obj s e)
    with Cons.prems show ?thesis
      by (intro exI [of _ "[FactoryCall f]"]) (auto simp: WrapIf_def)
  next
    case (nil_object s)
    with Cons.prems show ?thesis
      by (intro exI [of _ "[FactoryCall f]"]) (auto)
  next
    case (apply_error ob s res e w)
    with Cons.prems show ?thesis
      by (intro exI [of _ "[FactoryCall f, ApplyCall ob s]"]) (auto simp: WrapWithDetails_def)
  next
    case (requeue ob s res w)
    with Cons.prems show ?thesis
      by (intro exI [of _ "[FactoryCall f, ApplyCall ob s]"]) (auto)
  qed
qed

lemmas merge_defs = deepMerge_NodeAgent_def deepMerge_NodeAgentFluentbit_def
  deepMerge_ForwardOptions_def deepMerge_FilterAws_def deepMerge_BufferStorage_def
  deepMerge_Security_def deepMerge_InputTail_def deepMerge_DaemonSet_def deepMerge_PodSpec_def
  deepMerge_ptr_def deepMerge_string_def deepMerge_int_def deepMerge_bool_def deepMerge_slice_def

lemmas view_defs = specOf_def podSpecOf_def securityOf_def filterAwsOf_def forwardOptionsOf_def
  zero_NodeAgentFluentbit_def zero_PodSpec_def zero_Security_def zero_FilterAws_def
  zero_InputTail_def

lemma deepMerge_map_empty [simp]: "deepMerge_map Map.empty src = src"
  by (auto simp: deepMerge_map_def split: option.splits)

lemma fill_on_empty:
  "\<not> isSet (get f S) \<Longrightarrow> isSet (get f P) \<Longrightarrow> get f (deepMerge_NodeAgent S P) = get f P"
  by (cases f) (auto simp: merge_defs view_defs split: option.splits)

lemma set_kept:
  "\<not> isEmptyValue (get f S) \<Longrightarrow> f \<notin> {F_Labels, F_NodeSelector} \<Longrightarrow>
   get f (deepMerge_NodeAgent S P) = get f S"
  by (cases f) (auto simp: merge_defs view_defs split: option.splits)

lemma Name_defaults [simp]:
  "Name NodeAgentFluentbitDefaults = []"
  "Name NodeAgentFluentbitWindowsDefaults = []"
  "Name NodeAgentFluentbitLinuxDefaults = []"
  by (simp_all add: NodeAgentFluentbitDefaults_def NodeAgentFluentbitWindowsDefaults_def
      NodeAgentFluentbitLinuxDefaults_def zero_NodeAgent_def)

lemma Type_defaults [simp]:
  "Type NodeAgentFluentbitDefaults = []"
  "Type NodeAgentFluentbitWindowsDefaults = []"
  "Type NodeAgentFluentbitLinuxDefaults = []"
  by (simp_all add: NodeAgentFluentbitDefaults_def NodeAgentFluentbitWindowsDefaults_def
      NodeAgentFluentbitLinuxDefaults_def zero_NodeAgent_def)

lemma Name_deepMerge [simp]: "Name p = [] \<Longrightarrow> Name (deepMerge_NodeAgent a p) = Name a"
  by (simp add: deepMerge_NodeAgent_def deepMerge_string_def)

lemma Type_deepMerge [simp]: "Type p = [] \<Longrightarrow> Type (deepMerge_NodeAgent a p) = Type a"
  by (simp add: deepMerge_NodeAgent_def deepMerge_string_def)

lemma Name_withDefaults [simp]: "Name (withDefaults a) = Name a"
  by (simp add: withDefaults_def platformDefaults_def)

lemma Type_withDefaults [simp]: "Type (withDefaults a) = Type a"
  by (simp add: withDefaults_def platformDefaults_def)

lemma RNA_nil:
  "ReconcileNodeAgents env r done (None # rest) st =
     ((None, Some ErrNotSupported), r\<lparr>NodeAgents := done @ None # rest\<rparr>, st)"
  by (simp add: Merge_def)

lemma RNA_some:
  "ReconcileNodeAgents env r done (Some a # rest) st =
     (let a2 = withDefaults a;
          r2 = r\<lparr>NodeAgents := done @ Some a2 # rest\<rparr> in
      case Reconcile_instance env \<lparr>nodeAgent = a2, logging = r2\<rparr> st of ((result, err), st') \<Rightarrow>
        (case err of
           Some e \<Rightarrow>
             ((None, Some (WrapWithDetails e ''failed to reconcile instances''
                 [(''NodeName'', DString (Name a))])), r2, st')
         | None \<Rightarrow>
             (case result of
                Some res \<Rightarrow> ((Some res, None), r2, st')
              | None \<Rightarrow> ReconcileNodeAgents env r (done @ [Some a2]) rest st')))"
  by (auto simp: Merge_def withDefaults_def platformDefaults_def Let_def
      split: prod.splits option.splits)

lemma RNA_shape:
  "ReconcileNodeAgents env r done todo st = (out, r', st') \<Longrightarrow>
   length (NodeAgents r') = length done + length todo \<and> take (length done) (NodeAgents r') = done"
proof (induction todo arbitrary: "done" st)
  case Nil
  then show ?case by auto
next
  case (Cons a rest)
  show ?case
  proof (cases a)
    case None
    with Cons.prems show ?thesis by (auto simp: RNA_nil simp del: ReconcileNodeAgents.simps)
  next
    case (Some a0)
    obtain result err st1 where I: "Reconcile_instance env
        \<lparr>nodeAgent = withDefaults a0, logging = r\<lparr>NodeAgents := done @ Some (withDefaults a0) # rest\<rparr>\<rparr> st
        = ((result, err), st1)"
      by (metis surj_pair)
    show ?thesis
    proof (cases "err = None \<and> result = None")
      case True
      with Cons.prems Some I have
        "ReconcileNodeAgents env r (done @ [Some (withDefaults a0)]) rest st1 = (out, r', st')"
        by (simp add: RNA_some del: ReconcileNodeAgents.simps)
      from Cons.IH [OF this] show ?thesis
        by (auto simp: take_Suc_conv_app_nth dest: arg_cong [where f = "take (length done)"])
    next
      case False
      with Cons.prems Some I show ?thesis
        by (cases err; cases result) (auto simp: RNA_some simp del: ReconcileNodeAgents.simps)
    qed
  qed
qed

lemma RNA_entry:
  assumes "ReconcileNodeAgents env r done (Some a # rest) st = (out, r', st')"
  shows "NodeAgents r' ! length done = Some (withDefaults a)"
proof -
  obtain result err st1 where I: "Reconcile_instance env
      \<lparr>nodeAgent = withDefaults a, logging = r\<lparr>NodeAgents := done @ Some (withDefaults a) # rest\<rparr>\<rparr> st
      = ((result, err), st1)"
    by (metis surj_pair)
  show ?thesis
  proof (cases "err = None \<and> result = None")
    case True
    with assms I have
      "ReconcileNodeAgents env r (done @ [Some (withDefaults a)]) rest st1 = (out, r', st')"
      by (simp add: RNA_some del: ReconcileNodeAgents.simps)
    from RNA_shape [OF this] have "take (Suc (length done)) (NodeAgents r') = done @ [Some (withDefaults a)]"
      and "length done < length (NodeAgents r')"
      by auto
    then show ?thesis
      by (metis length_append_singleton lessI nth_append_length nth_take)
  next
    case False
    with assms I show ?thesis
      by (cases err; cases result) (auto simp: RNA_some simp del: ReconcileNodeAgents.simps)
  qed
qed

lemma distinct_factories: "distinct factories"
  by (simp add: factories_def)

lemma newEvents_append [simp]: "trace st' = trace st @ evs \<Longrightarrow> newEvents st st' = evs"
  by (simp add: newEvents_def)

lemma rf_prefix_calls:
  assumes "reconcileFactories env n pre st = ((None, None), st1)"
  shows "\<exists>evs. trace st1 = trace st @ evs \<and> factoryCalls evs = pre"
  using rf_trace [OF assms] by auto

section \<open>Claims\<close>

text \<open>
  C4, pipeline short-circuit.  Let \<open>f\<close> be the \<open>k\<close>-th factory of the list
  (\<open>pre\<close> are the \<open>k - 1\<close> factories before it, \<open>post\<close> the ones after it), let the
  factories before it have run without requeue or error, and let the apply primitive
  report the requeue \<open>res\<close>, without error, for the object of \<open>f\<close>.  Then the pass of
  the instance returns \<open>res\<close> and a nil error, the factories it has called are exactly
  the first \<open>k\<close>, and none of the later ones is called.
\<close>

theorem pipeline_short_circuit:
  assumes "factories = pre @ f # post"
    and "reconcileFactories env n pre st = ((None, None), st1)"
    and "factory env f n = (Some ob, s, None)"
    and "ReconcileResource env ob s (world st1) = ((Some res, None), w)"
  shows "Reconcile_instance env n st =
           ((Some res, None), \<lparr>world = w, trace = trace st1 @ [FactoryCall f, ApplyCall ob s]\<rparr>)
       \<and> factoryCalls (newEvents st (snd (Reconcile_instance env n st))) = pre @ [f]
       \<and> (\<forall>g \<in> set post. g \<notin> set (factoryCalls (newEvents st (snd (Reconcile_instance env n st)))))"
proof -
  let ?st' = "\<lparr>world = w, trace = trace st1 @ [FactoryCall f, ApplyCall ob s]\<rparr>"
  have R: "Reconcile_instance env n st = ((Some res, None), ?st')"
    unfolding Reconcile_instance_def assms(1)
    by (simp only: rf_append [OF assms(2)] rf_requeue [OF assms(3,4)])
  from rf_prefix_calls [OF assms(2)] obtain evs where
    E: "trace st1 = trace st @ evs" "factoryCalls evs = pre" by blast
  have "trace ?st' = trace st @ (evs @ [FactoryCall f, ApplyCall ob s])"
    using E by simp
  then have C: "factoryCalls (newEvents st ?st') = pre @ [f]"
    using E by (simp add: newEvents_def factoryCalls_append)
  have D: "\<forall>g \<in> set post. g \<notin> set (pre @ [f])"
    using distinct_factories unfolding assms(1) by auto
  show ?thesis using R C D by simp
qed

theorem pipeline_short_circuit_witness:
  "factories = [serviceAccount, clusterRole] @ clusterRoleBinding #
       [clusterPodSecurityPolicy, pspClusterRole, pspClusterRoleBinding, configSecret,
        daemonSet, serviceMetrics, monitorServiceMetrics]
   \<and> fst (Reconcile_instance (scriptedEnv requeueAtClusterRoleBinding) exampleInstance emptyPass)
       = (Some \<lparr>Requeue = True, RequeueAfter = 0\<rparr>, None)
   \<and> factoryCalls (newEvents emptyPass
        (snd (Reconcile_instance (scriptedEnv requeueAtClusterRoleBinding) exampleInstance emptyPass)))
       = [serviceAccount, clusterRole, clusterRoleBinding]
   \<and> daemonSet \<notin> set (factoryCalls (newEvents emptyPass
        (snd (Reconcile_instance (scriptedEnv requeueAtClusterRoleBinding) exampleInstance emptyPass))))"
proof -
  let ?env = "scriptedEnv requeueAtClusterRoleBinding"
  let ?st1 = "\<lparr>world = 2, trace = [FactoryCall serviceAccount, ApplyCall (''one'', serviceAccount) (),
      FactoryCall clusterRole, ApplyCall (''one'', clusterRole) ()]\<rparr>
      :: (string \<times> resourceKind, unit, nat) pass_state"
  have F: "factories = [serviceAccount, clusterRole] @ clusterRoleBinding #
       [clusterPodSecurityPolicy, pspClusterRole, pspClusterRoleBinding, configSecret,
        daemonSet, serviceMetrics, monitorServiceMetrics]"
    by (simp add: factories_def)
  have P: "reconcileFactories ?env exampleInstance [serviceAccount, clusterRole] emptyPass
      = ((None, None), ?st1)"
    by (simp add: scriptedEnv_def requeueAtClusterRoleBinding_def exampleInstance_def
        namedAgent_def emptyPass_def)
  have A: "factory ?env clusterRoleBinding exampleInstance = (Some (''one'', clusterRoleBinding), (), None)"
    by (simp add: scriptedEnv_def requeueAtClusterRoleBinding_def exampleInstance_def namedAgent_def)
  have B: "ReconcileResource ?env (''one'', clusterRoleBinding) () (world ?st1)
      = ((Some \<lparr>Requeue = True, RequeueAfter = 0\<rparr>, None), 3)"
    by (simp add: scriptedEnv_def requeueAtClusterRoleBinding_def)
  from pipeline_short_circuit [OF F P A B] F show ?thesis
    by (simp add: newEvents_def emptyPass_def)
qed

end
